theory Spec2Isabelle
  imports Complex_Main
begin

section \<open>Tensors\<close>

text \<open>
  Tensor entries are real numbers: the development is about the layer's arithmetic in
  exact arithmetic, so dtype casts (\<^verbatim>\<open>astype\<close>) are the identity and rounding is not
  modelled. A rank-1 tensor is a list of entries, a rank-2 tensor carries its shape
  \<open>[nr, nc]\<close> and its rows. The operations below are Paddle's on operands of conforming
  shapes; on other operands Paddle raises, and the value computed here has no meaning.
  An input batch is a rank-2 tensor \<open>[rows, in_features]\<close>: a batch of higher rank is
  handled row by row along its last axis, so it is its flattening over the leading axes.
\<close>

type_synonym vec = "real list"

record mat =
  nr :: nat
  nc :: nat
  rows :: "real list list"

definition wf_mat :: "mat \<Rightarrow> bool" where
  "wf_mat M \<longleftrightarrow> length (rows M) = nr M \<and> list_all (\<lambda>row. length row = nc M) (rows M)"

definition el :: "mat \<Rightarrow> nat \<Rightarrow> nat \<Rightarrow> real" where
  "el M i j = (if i < nr M \<and> j < nc M then rows M ! i ! j else 0)"

definition mk_mat :: "nat \<Rightarrow> nat \<Rightarrow> (nat \<Rightarrow> nat \<Rightarrow> real) \<Rightarrow> mat" where
  "mk_mat n m f = \<lparr>nr = n, nc = m, rows = map (\<lambda>i. map (\<lambda>j. f i j) [0..<m]) [0..<n]\<rparr>"

text \<open>\<^verbatim>\<open>A @ B\<close>\<close>

definition matmul :: "mat \<Rightarrow> mat \<Rightarrow> mat" where
  "matmul A B = mk_mat (nr A) (nc B) (\<lambda>i j. \<Sum>k<nc A. el A i k * el B k j)"

text \<open>\<^verbatim>\<open>paddle.diag(v)\<close>\<close>

definition diag :: "vec \<Rightarrow> mat" where
  "diag v = mk_mat (length v) (length v) (\<lambda>i j. if i = j then v ! i else 0)"

text \<open>\<^verbatim>\<open>A + B\<close>, \<^verbatim>\<open>A - B\<close> and \<^verbatim>\<open>A * s\<close> for a scalar \<open>s\<close>\<close>

definition mat_add :: "mat \<Rightarrow> mat \<Rightarrow> mat" where
  "mat_add A B = mk_mat (nr A) (nc A) (\<lambda>i j. el A i j + el B i j)"

definition mat_sub :: "mat \<Rightarrow> mat \<Rightarrow> mat" where
  "mat_sub A B = mk_mat (nr A) (nc A) (\<lambda>i j. el A i j - el B i j)"

definition mat_scale :: "mat \<Rightarrow> real \<Rightarrow> mat" where
  "mat_scale A s = mk_mat (nr A) (nc A) (\<lambda>i j. el A i j * s)"

text \<open>Adding a bias vector to every row (broadcast).\<close>

definition add_bias :: "mat \<Rightarrow> vec \<Rightarrow> mat" where
  "add_bias A b = mk_mat (nr A) (nc A) (\<lambda>i j. el A i j + b ! j)"

text \<open>\<^verbatim>\<open>F.linear(x, weight, bias)\<close>: \<open>x \<cdot> weight\<close>, plus the bias when there is one.\<close>

definition F_linear :: "mat \<Rightarrow> mat \<Rightarrow> vec option \<Rightarrow> mat" where
  "F_linear x W b = (case b of None \<Rightarrow> matmul x W | Some bv \<Rightarrow> add_bias (matmul x W) bv)"

text \<open>The slices \<^verbatim>\<open>U[:, :k]\<close> and \<^verbatim>\<open>Vh[:k]\<close>.\<close>

definition slice_cols :: "mat \<Rightarrow> nat \<Rightarrow> mat" where
  "slice_cols U k = \<lparr>nr = nr U, nc = min k (nc U), rows = map (take k) (rows U)\<rparr>"

definition slice_rows :: "mat \<Rightarrow> nat \<Rightarrow> mat" where
  "slice_rows Vh k = \<lparr>nr = min k (nr Vh), nc = nc Vh, rows = take k (rows Vh)\<rparr>"

text \<open>A tensor filled with one constant (\<^verbatim>\<open>nn.initializer.Constant\<close>).\<close>

definition full :: "nat \<Rightarrow> nat \<Rightarrow> real \<Rightarrow> mat" where
  "full n m c = mk_mat n m (\<lambda>i j. c)"

section \<open>Parameters\<close>

text \<open>A parameter is a tensor with its \<^verbatim>\<open>stop_gradient\<close> flag.\<close>

record 'a parameter =
  pvalue :: 'a
  stop_gradient :: bool

definition create_parameter :: "'a \<Rightarrow> 'a parameter" where
  "create_parameter v = \<lparr>pvalue = v, stop_gradient = False\<rparr>"

text \<open>
  \<^verbatim>\<open>p.set_value(v)\<close> overwrites the value and keeps the flag. Paddle asserts that the
  new value has the parameter's shape: \<open>set_value_checked\<close> is the call with that
  assertion, an \<open>AssertionError\<close> on a different shape, and \<open>set_value\<close> is the
  overwriting alone, for the calls whose argument has the parameter's shape by construction
  (\<^verbatim>\<open>self.weight + ...\<close> and \<^verbatim>\<open>self.weight - ...\<close> in \<^verbatim>\<open>train\<close> and \<^verbatim>\<open>eval\<close>).
\<close>

datatype error =
  ValueError | AssertionError string | OverflowError | IndexError | ZeroDivisionError

definition shape_not_match :: string where
  "shape_not_match = ''Variable Shape not match''"

definition set_value :: "'a parameter \<Rightarrow> 'a \<Rightarrow> 'a parameter" where
  "set_value p v = p\<lparr>pvalue := v\<rparr>"

definition same_shape :: "mat \<Rightarrow> mat \<Rightarrow> bool" where
  "same_shape A B \<longleftrightarrow> nr A = nr B \<and> nc A = nc B"

definition set_value_checked :: "mat parameter \<Rightarrow> mat \<Rightarrow> error + mat parameter" where
  "set_value_checked p v =
     (if same_shape (pvalue p) v then Inr (set_value p v)
      else Inl (AssertionError shape_not_match))"

datatype tensor = Tensor1 vec | Tensor2 mat

fun numel :: "tensor \<Rightarrow> nat" where
  "numel (Tensor1 v) = length v"
| "numel (Tensor2 M) = nr M * nc M"

definition as_tensor1 :: "vec parameter \<Rightarrow> tensor parameter" where
  "as_tensor1 p = \<lparr>pvalue = Tensor1 (pvalue p), stop_gradient = stop_gradient p\<rparr>"

definition as_tensor2 :: "mat parameter \<Rightarrow> tensor parameter" where
  "as_tensor2 p = \<lparr>pvalue = Tensor2 (pvalue p), stop_gradient = stop_gradient p\<rparr>"

section \<open>The VeRA layer (vera\_layers.py)\<close>

text \<open>The Python numbers the constructor can be handed for \<^verbatim>\<open>r\<close> and \<^verbatim>\<open>vera_alpha\<close>.\<close>

datatype pynum = PyInt int | PyFloat real

fun num_val :: "pynum \<Rightarrow> real" where
  "num_val (PyInt i) = of_int i"
| "num_val (PyFloat x) = x"

text \<open>
  \<^verbatim>\<open>a / b\<close> for an \<^verbatim>\<open>int\<close> \<open>b\<close>: Python's true division. The quotient is a float, and
  the one place where the float range is modelled: an \<^verbatim>\<open>int\<close> quotient that rounds beyond
  the largest double, or an \<^verbatim>\<open>int\<close> divisor of a float that does so itself, raises
  \<open>OverflowError\<close>. A value rounds beyond the largest double from \<open>2^1024 - 2^970\<close> on.
\<close>

definition float_overflow_bound :: real where
  "float_overflow_bound = 2 ^ 1024 - 2 ^ 970"

definition py_true_div :: "pynum \<Rightarrow> int \<Rightarrow> error + real" where
  "py_true_div a b =
     (if b = 0 then Inl ZeroDivisionError
      else case a of
        PyInt i \<Rightarrow>
          if float_overflow_bound \<le> \<bar>of_int i / of_int b\<bar> then Inl OverflowError
          else Inr (of_int i / of_int b)
      | PyFloat x \<Rightarrow>
          if float_overflow_bound \<le> \<bar>of_int b\<bar> then Inl OverflowError
          else Inr (x / of_int b))"

text \<open>The message of the \<^verbatim>\<open>assert\<close> in the PiSSA branch of the constructor.\<close>

definition pissa_requires :: string where
  "pissa_requires = ''pissa method requires vera_alpha=r, scaling=1''"

text \<open>
  \<^verbatim>\<open>self.vera_dropout\<close> is either an \<^verbatim>\<open>nn.Dropout(p)\<close> sublayer or the identity
  function.
\<close>

datatype dropout_fn = Dropout real | Identity

text \<open>
  The state of \<^verbatim>\<open>nn.Linear\<close> (weight, optional bias, the mode flag of \<^verbatim>\<open>nn.Layer\<close>),
  extended by the fields \<^verbatim>\<open>VeRALinear.__init__\<close> adds.
\<close>

record nn_Linear =
  weight :: "mat parameter"
  bias :: "vec parameter option"
  training :: bool

record VeRALinear = nn_Linear +
  r :: int
  vera_alpha :: pynum
  vera_dropout :: dropout_fn
  merged :: bool
  merge_weights :: bool
  scaling :: real
  lora_A :: "mat parameter"
  lora_B :: "mat parameter"
  vera_b :: "vec parameter"
  vera_d :: "vec parameter"

text \<open>
  \<^verbatim>\<open>pissa_init\<close> reads and overwrites \<^verbatim>\<open>self.weight\<close>, \<^verbatim>\<open>self.lora_A\<close> and
  \<^verbatim>\<open>self.lora_B\<close>; it runs before the other fields exist, so it is a function on these
  three parameters. \<open>svd\<close> is \<^verbatim>\<open>paddle.linalg.svd(_, full_matrices=False)\<close>. Each
  \<^verbatim>\<open>set_value\<close> asserts the shape: a rank above the number of singular values gives
  factors narrower than the declared \<open>[in_features, r]\<close> and \<open>[r, out_features]\<close>, and
  the first \<^verbatim>\<open>set_value\<close> fails.
\<close>

definition VeRALinear_pissa_init ::
  "(mat \<Rightarrow> mat \<times> vec \<times> mat) \<Rightarrow> int \<Rightarrow> mat parameter \<times> mat parameter \<times> mat parameter
    \<Rightarrow> error + mat parameter \<times> mat parameter \<times> mat parameter" where
  "VeRALinear_pissa_init svd rk st =
    (case st of (weight0, lora_A0, lora_B0) \<Rightarrow>
      (case svd (pvalue weight0) of (U, S, Vh) \<Rightarrow>
        let Ur = slice_cols U (nat rk);
            Sr = take (nat rk) S;
            Vhr = slice_rows Vh (nat rk);
            lora_A1 = matmul Ur (diag (map sqrt Sr));
            lora_B1 = matmul (diag (map sqrt Sr)) Vhr
        in case set_value_checked lora_A0 lora_A1 of
             Inl e \<Rightarrow> Inl e
           | Inr lora_A2 \<Rightarrow>
               (case set_value_checked lora_B0 lora_B1 of
                  Inl e \<Rightarrow> Inl e
                | Inr lora_B2 \<Rightarrow>
                    let res = mat_sub (pvalue weight0) (matmul lora_A1 lora_B1)
                    in case set_value_checked weight0 res of
                         Inl e \<Rightarrow> Inl e
                       | Inr weight1 \<Rightarrow> Inr (weight1, lora_A2, lora_B2))))"

text \<open>
  \<^verbatim>\<open>__init__\<close>. \<open>fresh\<close> is the layer as \<^verbatim>\<open>nn.Linear.__init__(self, in_features,
  out_features, **kwargs)\<close> leaves it (its own new weight, and its own new bias unless
  \<^verbatim>\<open>kwargs\<close> switch the bias off), \<open>initializer n m i j\<close> is the entry \<open>[i, j]\<close> a
  random initializer draws for a new parameter of shape \<open>[n, m]\<close>, and
  \<open>base_linear_module\<close> is the donor layer. A failing \<^verbatim>\<open>assert\<close> is the error
  \<open>AssertionError\<close> with its message. The statements run in the source's order: the
  donor's weight is stored first, with the shape assertion of \<^verbatim>\<open>set_value\<close>, then the
  rank is checked, then the factors are created, and \<^verbatim>\<open>vera_alpha / r\<close> is computed
  after them.
\<close>

definition VeRALinear_init ::
  "(mat \<Rightarrow> mat \<times> vec \<times> mat) \<Rightarrow> (nat \<Rightarrow> nat \<Rightarrow> nat \<Rightarrow> nat \<Rightarrow> real) \<Rightarrow> nn_Linear \<Rightarrow> nn_Linear
    \<Rightarrow> nat \<Rightarrow> nat \<Rightarrow> pynum \<Rightarrow> pynum \<Rightarrow> real \<Rightarrow> bool \<Rightarrow> bool \<Rightarrow> error + VeRALinear" where
  "VeRALinear_init svd initializer fresh base_linear_module in_features out_features
      r0 vera_alpha0 vera_dropout0 merge_weights0 pissa_init0 =
    (case set_value_checked (weight fresh) (pvalue (weight base_linear_module)) of
       Inl e \<Rightarrow> Inl e
     | Inr weight1 \<Rightarrow>
        (case r0 of
           PyFloat x \<Rightarrow> Inl ValueError
         | PyInt ri \<Rightarrow>
             if ri \<le> 0 then Inl ValueError
             else
               let dropout0 = (if vera_dropout0 > 0 then Dropout vera_dropout0 else Identity) in
               case
                 (if pissa_init0 then
                    if num_val vera_alpha0 \<noteq> of_int ri then Inl (AssertionError pissa_requires)
                    else VeRALinear_pissa_init svd ri
                           (weight1,
                            create_parameter
                              (mk_mat in_features (nat ri) (initializer in_features (nat ri))),
                            create_parameter
                              (mk_mat (nat ri) out_features (initializer (nat ri) out_features)))
                  else Inr (weight1,
                            create_parameter
                              (mk_mat in_features (nat ri) (initializer in_features (nat ri))),
                            create_parameter (full (nat ri) out_features 0)))
               of
                 Inl e \<Rightarrow> Inl e
               | Inr (weight2, lora_A2, lora_B2) \<Rightarrow>
                   (case py_true_div vera_alpha0 ri of
                      Inl e \<Rightarrow> Inl e
                    | Inr scaling0 \<Rightarrow>
                        Inr \<lparr>weight = weight2\<lparr>stop_gradient := True\<rparr>,
                             bias = bias fresh,
                             training = training fresh,
                             r = ri,
                             vera_alpha = vera_alpha0,
                             vera_dropout = dropout0,
                             merged = False,
                             merge_weights = merge_weights0,
                             scaling = scaling0,
                             lora_A = lora_A2,
                             lora_B = lora_B2,
                             vera_b = create_parameter (replicate out_features 1),
                             vera_d = create_parameter (replicate (nat ri) 1)\<rparr>)))"

text \<open>
  \<^verbatim>\<open>train\<close> and \<^verbatim>\<open>eval\<close>: the mode flag is set by \<^verbatim>\<open>super().train()\<close> and
  \<^verbatim>\<open>super().eval()\<close>; \<^verbatim>\<open>@\<close> and \<^verbatim>\<open>*\<close> associate to the left.
\<close>

definition VeRALinear_train :: "VeRALinear \<Rightarrow> VeRALinear" where
  "VeRALinear_train self0 =
    (let self = self0\<lparr>training := True\<rparr> in
     if merge_weights self \<and> merged self then
       let diag_b = diag (pvalue (vera_b self));
           diag_d = diag (pvalue (vera_d self));
           new_weight = mat_sub (pvalue (weight self))
             (mat_scale (matmul (matmul (matmul (pvalue (lora_A self)) diag_d)
                (pvalue (lora_B self))) diag_b) (scaling self))
       in self\<lparr>weight := set_value (weight self) new_weight, merged := False\<rparr>
     else self)"

definition VeRALinear_eval :: "VeRALinear \<Rightarrow> VeRALinear" where
  "VeRALinear_eval self0 =
    (let self = self0\<lparr>training := False\<rparr> in
     if merge_weights self \<and> \<not> merged self then
       let diag_b = diag (pvalue (vera_b self));
           diag_d = diag (pvalue (vera_d self));
           new_weight = mat_add (pvalue (weight self))
             (mat_scale (matmul (matmul (matmul (pvalue (lora_A self)) diag_d)
                (pvalue (lora_B self))) diag_b) (scaling self))
       in self\<lparr>weight := set_value (weight self) new_weight, merged := True\<rparr>
     else self)"

text \<open>
  \<^verbatim>\<open>forward\<close>. \<open>nn_Dropout p mode x\<close> is what an \<^verbatim>\<open>nn.Dropout(p)\<close> sublayer returns
  on \<open>x\<close> in this call (it is stochastic in training mode), for the layer's mode flag.
\<close>

definition apply_vera_dropout :: "(real \<Rightarrow> bool \<Rightarrow> mat \<Rightarrow> mat) \<Rightarrow> VeRALinear \<Rightarrow> mat \<Rightarrow> mat" where
  "apply_vera_dropout nn_Dropout self x =
    (case vera_dropout self of Identity \<Rightarrow> x | Dropout p \<Rightarrow> nn_Dropout p (training self) x)"

definition VeRALinear_forward :: "(real \<Rightarrow> bool \<Rightarrow> mat \<Rightarrow> mat) \<Rightarrow> VeRALinear \<Rightarrow> mat \<Rightarrow> mat" where
  "VeRALinear_forward nn_Dropout self input =
    (let result = F_linear input (pvalue (weight self)) (map_option pvalue (bias self)) in
     if \<not> merged self then
       let diag_b = diag (pvalue (vera_b self));
           diag_d = diag (pvalue (vera_d self))
       in mat_add result
            (mat_scale (matmul (matmul (matmul (matmul (apply_vera_dropout nn_Dropout self input)
               (pvalue (lora_A self))) diag_d) (pvalue (lora_B self))) diag_b) (scaling self))
     else result)"

text \<open>Sequences of mode transitions.\<close>

datatype transition = Train | Eval

fun step :: "transition \<Rightarrow> VeRALinear \<Rightarrow> VeRALinear" where
  "step Train self = VeRALinear_train self"
| "step Eval self = VeRALinear_eval self"

fun run_transitions :: "transition list \<Rightarrow> VeRALinear \<Rightarrow> VeRALinear" where
  "run_transitions [] self = self"
| "run_transitions (t # ts) self = run_transitions ts (step t self)"

text \<open>
  \<^verbatim>\<open>self.parameters()\<close> of the layer: its registered parameters in the order of
  their creation (the dropout sublayer has none).
\<close>

definition VeRALinear_parameters :: "VeRALinear \<Rightarrow> tensor parameter list" where
  "VeRALinear_parameters self =
    [as_tensor2 (weight self)]
    @ (case bias self of None \<Rightarrow> [] | Some b \<Rightarrow> [as_tensor1 b])
    @ [as_tensor2 (lora_A self), as_tensor2 (lora_B self),
       as_tensor1 (vera_b self), as_tensor1 (vera_d self)]"

section \<open>Parameter accounting (reft\_model.py)\<close>

text \<open>A module is seen through its \<^verbatim>\<open>parameters()\<close>.\<close>

type_synonym module = "tensor parameter list"

definition count_parameters :: "module \<Rightarrow> int" where
  "count_parameters model = int (sum_list (map (\<lambda>p. numel (pvalue p))
     (filter (\<lambda>p. \<not> stop_gradient p) model)))"

record ReftModel =
  interventions :: "(string \<times> module list) list"
  model :: module

text \<open>The numbers the method formats into its log messages.\<close>

record report =
  trainable_intervention_parameters :: int
  trainable_model_parameters :: int
  all_model_parameters :: int
  total_trainable_parameters :: int
  trainable_percent :: real

text \<open>
  The loop over \<^verbatim>\<open>self.interventions.items()\<close>; \<^verbatim>\<open>v[0]\<close> raises \<open>IndexError\<close> on an
  empty sequence.
\<close>

fun interventions_loop :: "(string \<times> module list) list \<Rightarrow> int \<Rightarrow> error + int" where
  "interventions_loop [] acc = Inr acc"
| "interventions_loop ((k, v) # rest) acc =
     (case v of
        [] \<Rightarrow> Inl IndexError
      | m # ms \<Rightarrow> interventions_loop rest (acc + count_parameters m))"

definition print_trainable_parameters :: "ReftModel \<Rightarrow> error + report" where
  "print_trainable_parameters self =
    (case interventions_loop (interventions self) 0 of
       Inl e \<Rightarrow> Inl e
     | Inr tip \<Rightarrow>
         let tmp = int (sum_list (map (\<lambda>p. numel (pvalue p))
                     (filter (\<lambda>p. \<not> stop_gradient p) (model self))));
             amp = int (sum_list (map (\<lambda>p. numel (pvalue p)) (model self)));
             ttp = tip + tmp
         in if amp = 0 then Inl ZeroDivisionError
            else Inr \<lparr>trainable_intervention_parameters = tip,
                      trainable_model_parameters = tmp,
                      all_model_parameters = amp,
                      total_trainable_parameters = ttp,
                      trainable_percent = 100 * real_of_int ttp / real_of_int amp\<rparr>)"

section \<open>Reference formulas and shape conditions\<close>

text \<open>
  The formulas the properties below compare the code with. \<open>nn_Linear_forward\<close> is
  the plain affine map \<open>input \<cdot> weight + bias\<close> of a linear layer (it applies to the
  donor layer and, through the shared fields, to the adapted layer);
  \<open>low_rank_term self x\<close> is \<open>scaling \<cdot> (x \<cdot> lora_A \<cdot> diag(vera_d) \<cdot> lora_B \<cdot> diag(vera_b))\<close>
  and \<open>delta_weight self\<close> is \<open>scaling \<cdot> lora_A \<cdot> diag(vera_d) \<cdot> lora_B \<cdot> diag(vera_b)\<close>,
  with the scalar written on the left.
\<close>

definition left_scale :: "real \<Rightarrow> mat \<Rightarrow> mat" where
  "left_scale s A = mk_mat (nr A) (nc A) (\<lambda>i j. s * el A i j)"

definition nn_Linear_forward :: "'a nn_Linear_scheme \<Rightarrow> mat \<Rightarrow> mat" where
  "nn_Linear_forward layer x = F_linear x (pvalue (weight layer)) (map_option pvalue (bias layer))"

definition low_rank_term :: "VeRALinear \<Rightarrow> mat \<Rightarrow> mat" where
  "low_rank_term self x =
     left_scale (scaling self)
       (matmul (matmul (matmul (matmul x (pvalue (lora_A self))) (diag (pvalue (vera_d self))))
          (pvalue (lora_B self))) (diag (pvalue (vera_b self))))"

definition delta_weight :: "VeRALinear \<Rightarrow> mat" where
  "delta_weight self =
     left_scale (scaling self)
       (matmul (matmul (matmul (pvalue (lora_A self)) (diag (pvalue (vera_d self))))
          (pvalue (lora_B self))) (diag (pvalue (vera_b self))))"

definition has_shape :: "mat \<Rightarrow> nat \<Rightarrow> nat \<Rightarrow> bool" where
  "has_shape M n m \<longleftrightarrow> nr M = n \<and> nc M = m \<and> wf_mat M"

text \<open>
  The shapes of a layer with \<open>n\<close> input features, \<open>m\<close> output features and rank \<open>k\<close>.
\<close>

definition layer_shapes :: "VeRALinear \<Rightarrow> nat \<Rightarrow> nat \<Rightarrow> nat \<Rightarrow> bool" where
  "layer_shapes self n m k \<longleftrightarrow>
     has_shape (pvalue (weight self)) n m \<and>
     has_shape (pvalue (lora_A self)) n k \<and>
     has_shape (pvalue (lora_B self)) k m \<and>
     length (pvalue (vera_b self)) = m \<and>
     length (pvalue (vera_d self)) = k"

text \<open>Every entry of the intervention registry has a first module.\<close>

definition registry_ok :: "ReftModel \<Rightarrow> bool" where
  "registry_ok self \<longleftrightarrow> list_all (\<lambda>kv. snd kv \<noteq> []) (interventions self)"

text \<open>The element count of all parameters of a module, and of the first module of an entry.\<close>

definition count_all :: "module \<Rightarrow> int" where
  "count_all ps = int (sum_list (map (\<lambda>p. numel (pvalue p)) ps))"

definition first_module_count :: "string \<times> module list \<Rightarrow> int" where
  "first_module_count kv = (case snd kv of [] \<Rightarrow> 0 | m # ms \<Rightarrow> count_parameters m)"

section \<open>Example data\<close>

text \<open>
  A one-by-one donor layer with weight 4 and bias 5, the new linear layer Paddle creates
  for the adapter (its own weight, bias 0), a stand-in for the random initializer, the
  singular value decomposition of a non-negative one-by-one matrix, and a dropout that
  changes nothing.
\<close>

definition scalar_mat :: "real \<Rightarrow> mat" where
  "scalar_mat c = \<lparr>nr = 1, nc = 1, rows = [[c]]\<rparr>"

definition demo_donor :: nn_Linear where
  "demo_donor = \<lparr>weight = \<lparr>pvalue = scalar_mat 4, stop_gradient = False\<rparr>,
                 bias = Some \<lparr>pvalue = [5], stop_gradient = False\<rparr>,
                 training = True\<rparr>"

definition demo_fresh :: nn_Linear where
  "demo_fresh = \<lparr>weight = \<lparr>pvalue = scalar_mat 7, stop_gradient = False\<rparr>,
                 bias = Some \<lparr>pvalue = [0], stop_gradient = False\<rparr>,
                 training = True\<rparr>"

definition demo_initializer :: "nat \<Rightarrow> nat \<Rightarrow> nat \<Rightarrow> nat \<Rightarrow> real" where
  "demo_initializer n m i j = 3"

definition demo_svd :: "mat \<Rightarrow> mat \<times> vec \<times> mat" where
  "demo_svd M = (scalar_mat 1, [el M 0 0], scalar_mat 1)"

text \<open>A new linear layer of another shape than the donor's, with a weight of two rows.\<close>

definition demo_tall_fresh :: nn_Linear where
  "demo_tall_fresh = demo_fresh\<lparr>weight := \<lparr>pvalue = full 2 1 7, stop_gradient = False\<rparr>\<rparr>"

definition no_dropout :: "real \<Rightarrow> bool \<Rightarrow> mat \<Rightarrow> mat" where
  "no_dropout p mode x = x"

text \<open>The layers the constructor returns on this data, by default and with PiSSA.\<close>

definition demo_layer :: "bool \<Rightarrow> VeRALinear" where
  "demo_layer mw =
     \<lparr>weight = \<lparr>pvalue = scalar_mat 4, stop_gradient = True\<rparr>,
      bias = Some \<lparr>pvalue = [0], stop_gradient = False\<rparr>,
      training = True,
      r = 1, vera_alpha = PyInt 1, vera_dropout = Identity,
      merged = False, merge_weights = mw, scaling = 1,
      lora_A = \<lparr>pvalue = scalar_mat 3, stop_gradient = False\<rparr>,
      lora_B = \<lparr>pvalue = scalar_mat 0, stop_gradient = False\<rparr>,
      vera_b = \<lparr>pvalue = [1], stop_gradient = False\<rparr>,
      vera_d = \<lparr>pvalue = [1], stop_gradient = False\<rparr>\<rparr>"

definition demo_pissa_layer :: VeRALinear where
  "demo_pissa_layer =
     \<lparr>weight = \<lparr>pvalue = scalar_mat 0, stop_gradient = True\<rparr>,
      bias = Some \<lparr>pvalue = [0], stop_gradient = False\<rparr>,
      training = True,
      r = 1, vera_alpha = PyInt 1, vera_dropout = Identity,
      merged = False, merge_weights = True, scaling = 1,
      lora_A = \<lparr>pvalue = scalar_mat 2, stop_gradient = False\<rparr>,
      lora_B = \<lparr>pvalue = scalar_mat 2, stop_gradient = False\<rparr>,
      vera_b = \<lparr>pvalue = [1], stop_gradient = False\<rparr>,
      vera_d = \<lparr>pvalue = [1], stop_gradient = False\<rparr>\<rparr>"

text \<open>
  A base model with 100 parameter elements, 10 of them trainable, and a registry with
  one intervention whose first module has 5 trainable elements.
\<close>

definition demo_reft :: ReftModel where
  "demo_reft =
     \<lparr>interventions =
        [(''layer.0'', [[\<lparr>pvalue = Tensor1 [1, 2, 3, 4, 5], stop_gradient = False\<rparr>,
                         \<lparr>pvalue = Tensor1 [6, 7], stop_gradient = True\<rparr>], []])],
      model = [\<lparr>pvalue = Tensor2 (full 9 10 0), stop_gradient = True\<rparr>,
               \<lparr>pvalue = Tensor1 (replicate 10 1), stop_gradient = False\<rparr>]\<rparr>"

section \<open>Matrix algebra\<close>

lemma nr_mk_mat [simp]: "nr (mk_mat n m f) = n"
  by (simp add: mk_mat_def)

lemma nc_mk_mat [simp]: "nc (mk_mat n m f) = m"
  by (simp add: mk_mat_def)

lemma wf_mk_mat [simp]: "wf_mat (mk_mat n m f)"
  by (simp add: mk_mat_def wf_mat_def list_all_iff)

lemma el_mk_mat [simp]: "el (mk_mat n m f) i j = (if i < n \<and> j < m then f i j else 0)"
  by (simp add: mk_mat_def el_def)

lemma mk_mat_cong:
  assumes "\<And>i j. i < n \<Longrightarrow> j < m \<Longrightarrow> f i j = g i j"
  shows "mk_mat n m f = mk_mat n m g"
  using assms by (simp add: mk_mat_def)

lemma mk_mat_el:
  assumes "wf_mat M"
  shows "mk_mat (nr M) (nc M) (el M) = M"
proof -
  have len: "length (rows M) = nr M" and row: "\<And>i. i < nr M \<Longrightarrow> length (rows M ! i) = nc M"
    using assms by (auto simp: wf_mat_def list_all_length)
  have "map (\<lambda>i. map (\<lambda>j. el M i j) [0..<nc M]) [0..<nr M] = rows M"
  proof (rule nth_equalityI)
    show "length (map (\<lambda>i. map (\<lambda>j. el M i j) [0..<nc M]) [0..<nr M]) = length (rows M)"
      by (simp add: len)
  next
    fix i assume "i < length (map (\<lambda>i. map (\<lambda>j. el M i j) [0..<nc M]) [0..<nr M])"
    then have i: "i < nr M" by simp
    have "map (\<lambda>j. el M i j) [0..<nc M] = rows M ! i"
      by (rule nth_equalityI) (simp_all add: row i el_def)
    then show "map (\<lambda>i. map (\<lambda>j. el M i j) [0..<nc M]) [0..<nr M] ! i = rows M ! i"
      using i by simp
  qed
  then show ?thesis by (simp add: mk_mat_def)
qed

lemma matmul_assoc:
  assumes "nc A = nr B" "nc B = nr C"
  shows "matmul (matmul A B) C = matmul A (matmul B C)"
proof -
  have sw: "(\<Sum>k<nc B. (\<Sum>l<nc A. el A i l * el B l k) * el C k j)
      = (\<Sum>l<nc A. el A i l * (\<Sum>k<nc B. el B l k * el C k j))" for i j
  proof -
    have "(\<Sum>k<nc B. (\<Sum>l<nc A. el A i l * el B l k) * el C k j)
        = (\<Sum>k<nc B. \<Sum>l<nc A. el A i l * (el B l k * el C k j))"
      by (simp add: sum_distrib_right mult.assoc)
    also have "\<dots> = (\<Sum>l<nc A. \<Sum>k<nc B. el A i l * (el B l k * el C k j))"
      by (rule sum.swap)
    also have "\<dots> = (\<Sum>l<nc A. el A i l * (\<Sum>k<nc B. el B l k * el C k j))"
      by (simp add: sum_distrib_left)
    finally show ?thesis .
  qed
  have "mk_mat (nr A) (nc C) (\<lambda>i j. \<Sum>k<nc B. el (matmul A B) i k * el C k j)
      = mk_mat (nr A) (nc C) (\<lambda>i j. \<Sum>l<nc A. el A i l * el (matmul B C) l j)"
  proof (rule mk_mat_cong)
    fix i j assume i: "i < nr A" and j: "j < nc C"
    have "(\<Sum>k<nc B. el (matmul A B) i k * el C k j)
        = (\<Sum>k<nc B. (\<Sum>l<nc A. el A i l * el B l k) * el C k j)"
      by (rule sum.cong) (simp_all add: matmul_def i)
    also have "\<dots> = (\<Sum>l<nc A. el A i l * (\<Sum>k<nc B. el B l k * el C k j))"
      by (rule sw)
    also have "\<dots> = (\<Sum>l<nc A. el A i l * el (matmul B C) l j)"
      by (rule sum.cong) (simp_all add: matmul_def j assms)
    finally show "(\<Sum>k<nc B. el (matmul A B) i k * el C k j)
        = (\<Sum>l<nc A. el A i l * el (matmul B C) l j)" .
  qed
  then show ?thesis by (simp add: matmul_def)
qed

lemma matmul_add_distrib:
  assumes "nc x = nr W" "nr P = nr W" "nc P = nc W"
  shows "matmul x (mat_add W P) = mat_add (matmul x W) (matmul x P)"
  unfolding matmul_def mat_add_def using assms
  by (auto intro!: mk_mat_cong simp: sum.distrib [symmetric] algebra_simps intro!: sum.cong)

lemma matmul_scale:
  assumes "nc x = nr P"
  shows "matmul x (mat_scale P s) = mat_scale (matmul x P) s"
  unfolding matmul_def mat_scale_def using assms
  by (auto intro!: mk_mat_cong simp: sum_distrib_right mult.assoc intro!: sum.cong)

lemma add_bias_mat_add:
  "nr Y = nr X \<Longrightarrow> nc Y = nc X \<Longrightarrow> add_bias (mat_add X Y) b = mat_add (add_bias X b) Y"
  unfolding add_bias_def mat_add_def
  by (auto intro!: mk_mat_cong)

lemma matmul_diag_ones:
  assumes "wf_mat A"
  shows "matmul A (diag (replicate (nc A) 1)) = A"
proof -
  have "mk_mat (nr A) (nc A) (\<lambda>i j. \<Sum>k<nc A. el A i k * el (diag (replicate (nc A) 1)) k j)
      = mk_mat (nr A) (nc A) (el A)"
  proof (rule mk_mat_cong)
    fix i j assume "i < nr A" and j: "j < nc A"
    have "(\<Sum>k<nc A. el A i k * el (diag (replicate (nc A) 1)) k j)
        = (\<Sum>k<nc A. if k = j then el A i k else 0)"
      by (rule sum.cong) (simp_all add: diag_def j)
    also have "\<dots> = el A i j"
      using j by simp
    finally show "(\<Sum>k<nc A. el A i k * el (diag (replicate (nc A) 1)) k j) = el A i j" .
  qed
  then show ?thesis using assms by (simp add: matmul_def diag_def mk_mat_el)
qed

lemma diag_ones_matmul:
  assumes "wf_mat B"
  shows "matmul (diag (replicate (nr B) 1)) B = B"
proof -
  have "mk_mat (nr B) (nc B) (\<lambda>i j. \<Sum>k<nr B. el (diag (replicate (nr B) 1)) i k * el B k j)
      = mk_mat (nr B) (nc B) (el B)"
  proof (rule mk_mat_cong)
    fix i j assume i: "i < nr B" and "j < nc B"
    have "(\<Sum>k<nr B. el (diag (replicate (nr B) 1)) i k * el B k j)
        = (\<Sum>k<nr B. if k = i then el B k j else 0)"
      by (rule sum.cong) (auto simp add: diag_def i)
    also have "\<dots> = el B i j"
      using i by simp
    finally show "(\<Sum>k<nr B. el (diag (replicate (nr B) 1)) i k * el B k j) = el B i j" .
  qed
  then show ?thesis using assms by (simp add: matmul_def diag_def mk_mat_el)
qed

lemma mat_scale_one: "wf_mat A \<Longrightarrow> mat_scale A 1 = A"
  by (simp add: mat_scale_def mk_mat_el)

lemma mat_sub_add_cancel:
  assumes "wf_mat W" "nr P = nr W" "nc P = nc W"
  shows "mat_add (mat_sub W P) P = W"
proof -
  have "mk_mat (nr W) (nc W) (\<lambda>i j. el (mat_sub W P) i j + el P i j) = mk_mat (nr W) (nc W) (el W)"
    by (rule mk_mat_cong) (simp add: mat_sub_def)
  then show ?thesis using assms by (simp add: mat_add_def mat_sub_def mk_mat_el)
qed

lemma matmul_zero_right:
  "matmul X (full n m 0) = full (nr X) m 0"
  by (simp add: matmul_def full_def)

lemma matmul_zero_left:
  "matmul (full n m 0) Y = full n (nc Y) 0"
  by (simp add: matmul_def full_def)

lemma mat_scale_zero: "mat_scale (full n m 0) s = full n m 0"
  by (simp add: mat_scale_def full_def)

lemma mat_add_zero:
  assumes "wf_mat R"
  shows "mat_add R (full n m 0) = R"
proof -
  have "mk_mat (nr R) (nc R) (\<lambda>i j. el R i j + el (full n m 0) i j) = mk_mat (nr R) (nc R) (el R)"
    by (rule mk_mat_cong) (simp add: full_def)
  then show ?thesis using assms by (simp add: mat_add_def mk_mat_el)
qed

lemma wf_F_linear [simp]: "wf_mat (F_linear x W b)"
  by (simp add: F_linear_def matmul_def add_bias_def split: option.splits)

section \<open>The example data, evaluated\<close>

lemmas eval_defs = matmul_def mk_mat_def el_def diag_def mat_add_def mat_sub_def mat_scale_def
  add_bias_def F_linear_def slice_cols_def slice_rows_def full_def scalar_mat_def left_scale_def
  create_parameter_def set_value_def set_value_checked_def same_shape_def

lemma no_overflow_below:
  assumes "\<bar>x\<bar> \<le> 2 ^ 1023"
  shows "\<not> float_overflow_bound \<le> \<bar>x\<bar>"
proof -
  have "(2::real) ^ 970 < 2 ^ 1023"
    by (rule power_strict_increasing) simp_all
  moreover have "(2::real) ^ 1024 = 2 * 2 ^ 1023"
    by (simp add: power_Suc [symmetric] del: power_Suc)
  ultimately have "(2::real) ^ 1023 < float_overflow_bound"
    by (simp add: float_overflow_bound_def)
  with assms show ?thesis by simp
qed

lemma py_true_div_small:
  assumes "b \<noteq> 0" and "\<bar>of_int i / of_int b\<bar> \<le> (2::real) ^ 1023"
  shows "py_true_div (PyInt i) b = Inr (of_int i / of_int b)"
  using assms no_overflow_below [OF assms(2)] by (simp add: py_true_div_def)

lemma py_true_div_one: "py_true_div (PyInt 1) 1 = Inr 1"
  using py_true_div_small [of 1 1] by simp

lemma py_true_div_same:
  assumes "py_true_div a b = Inr s" and "num_val a = of_int b" and "b \<noteq> 0"
  shows "s = 1"
  using assms by (cases a) (auto simp: py_true_div_def split: if_splits)

lemma set_value_checked_add:
  "set_value_checked p (mat_add (pvalue p) X) = Inr (set_value p (mat_add (pvalue p) X))"
  by (simp add: set_value_checked_def same_shape_def mat_add_def)

lemma set_value_checked_sub:
  "set_value_checked p (mat_sub (pvalue p) X) = Inr (set_value p (mat_sub (pvalue p) X))"
  by (simp add: set_value_checked_def same_shape_def mat_sub_def)

lemma demo_init_default:
  "VeRALinear_init demo_svd demo_initializer demo_fresh demo_donor 1 1 (PyInt 1) (PyInt 1) 0 mw False
     = Inr (demo_layer mw)"
  by (simp add: VeRALinear_init_def demo_layer_def demo_fresh_def demo_donor_def
      demo_initializer_def py_true_div_one eval_defs)

lemma demo_init_pissa:
  "VeRALinear_init demo_svd demo_initializer demo_fresh demo_donor 1 1 (PyInt 1) (PyInt 1) 0 True True
     = Inr demo_pissa_layer"
  by (simp add: VeRALinear_init_def VeRALinear_pissa_init_def demo_pissa_layer_def demo_fresh_def
      demo_donor_def demo_initializer_def demo_svd_def py_true_div_one eval_defs Let_def)

lemma demo_forward_default:
  "VeRALinear_forward no_dropout (demo_layer mw) (scalar_mat 1) = scalar_mat 4"
  by (simp add: VeRALinear_forward_def demo_layer_def apply_vera_dropout_def eval_defs)

lemma demo_donor_forward:
  "nn_Linear_forward demo_donor (scalar_mat 1) = scalar_mat 9"
  by (simp add: nn_Linear_forward_def demo_donor_def eval_defs)

lemma demo_forward_pissa:
  "VeRALinear_forward no_dropout demo_pissa_layer (scalar_mat 1) = scalar_mat 4"
  by (simp add: VeRALinear_forward_def demo_pissa_layer_def apply_vera_dropout_def eval_defs)

lemma demo_eval_pissa:
  "VeRALinear_eval demo_pissa_layer = demo_pissa_layer\<lparr>training := False, weight := \<lparr>pvalue = scalar_mat 4, stop_gradient = True\<rparr>, merged := True\<rparr>"
  by (simp add: VeRALinear_eval_def demo_pissa_layer_def eval_defs)

lemma demo_shapes: "layer_shapes demo_pissa_layer 1 1 1"
  by (simp add: layer_shapes_def has_shape_def wf_mat_def demo_pissa_layer_def scalar_mat_def)

lemma demo_report:
  "print_trainable_parameters demo_reft =
     Inr \<lparr>trainable_intervention_parameters = 5, trainable_model_parameters = 10,
          all_model_parameters = 100, total_trainable_parameters = 15, trainable_percent = 15\<rparr>"
  by (simp add: print_trainable_parameters_def demo_reft_def count_parameters_def full_def)

section \<open>Forward computation\<close>

lemma left_scale_eq: "left_scale s A = mat_scale A s"
  by (simp add: left_scale_def mat_scale_def mult.commute)

lemma forward_unmerged:
  "\<not> merged self \<Longrightarrow> VeRALinear_forward nn_Dropout self input =
     mat_add (nn_Linear_forward self input)
       (low_rank_term self (apply_vera_dropout nn_Dropout self input))"
  by (simp add: VeRALinear_forward_def nn_Linear_forward_def low_rank_term_def left_scale_eq Let_def)

lemma forward_merged:
  "merged self \<Longrightarrow> VeRALinear_forward nn_Dropout self input = nn_Linear_forward self input"
  by (simp add: VeRALinear_forward_def nn_Linear_forward_def)

lemma wf_nn_Linear_forward [simp]: "wf_mat (nn_Linear_forward layer x)"
  by (simp add: nn_Linear_forward_def)

text \<open>
  Claim C1. For every input, an unmerged layer returns \<open>input \<cdot> weight + bias\<close> plus
  \<open>scaling \<cdot> (dropout(input) \<cdot> lora_A \<cdot> diag(vera_d) \<cdot> lora_B \<cdot> diag(vera_b))\<close>, and a
  merged layer returns \<open>input \<cdot> weight + bias\<close> alone, with no low-rank term added.
\<close>

theorem forward_formula:
  "(\<not> merged self \<longrightarrow>
      VeRALinear_forward nn_Dropout self input =
        mat_add (nn_Linear_forward self input)
          (low_rank_term self (apply_vera_dropout nn_Dropout self input)))
   \<and> (merged self \<longrightarrow>
      VeRALinear_forward nn_Dropout self input = nn_Linear_forward self input)"
  by (simp add: VeRALinear_forward_def nn_Linear_forward_def low_rank_term_def left_scale_eq Let_def)

theorem forward_formula_witness:
  "\<not> merged demo_pissa_layer
   \<and> VeRALinear_forward no_dropout demo_pissa_layer (scalar_mat 1) =
       mat_add (nn_Linear_forward demo_pissa_layer (scalar_mat 1))
         (low_rank_term demo_pissa_layer (apply_vera_dropout no_dropout demo_pissa_layer (scalar_mat 1)))
   \<and> merged (VeRALinear_eval demo_pissa_layer)
   \<and> VeRALinear_forward no_dropout (VeRALinear_eval demo_pissa_layer) (scalar_mat 1) =
       nn_Linear_forward (VeRALinear_eval demo_pissa_layer) (scalar_mat 1)"
  using forward_formula [of demo_pissa_layer no_dropout "scalar_mat 1"]
    forward_formula [of "VeRALinear_eval demo_pissa_layer" no_dropout "scalar_mat 1"]
  by (simp add: demo_eval_pissa) (simp add: demo_pissa_layer_def)

section \<open>Merging is transparent\<close>

lemma lowrank_assoc:
  assumes "nc x = nr A" "nc A = length d" "nr B = length d" "nc B = length b"
  shows "matmul x (matmul (matmul (matmul A (diag d)) B) (diag b))
       = matmul (matmul (matmul (matmul x A) (diag d)) B) (diag b)"
proof -
  have 1: "matmul x (matmul (matmul (matmul A (diag d)) B) (diag b))
        = matmul (matmul x (matmul (matmul A (diag d)) B)) (diag b)"
    by (rule matmul_assoc [symmetric]) (simp_all add: assms matmul_def diag_def)
  have 2: "matmul x (matmul (matmul A (diag d)) B) = matmul (matmul x (matmul A (diag d))) B"
    by (rule matmul_assoc [symmetric]) (simp_all add: assms matmul_def diag_def)
  have 3: "matmul x (matmul A (diag d)) = matmul (matmul x A) (diag d)"
    by (rule matmul_assoc [symmetric]) (simp_all add: assms matmul_def diag_def)
  show ?thesis by (simp only: 1 2 3)
qed

lemma F_linear_add:
  assumes "nc x = nr W" "nr P = nr W" "nc P = nc W"
  shows "F_linear x (mat_add W P) bv = mat_add (F_linear x W bv) (matmul x P)"
proof (cases bv)
  case None
  then show ?thesis by (simp add: F_linear_def matmul_add_distrib assms)
next
  case (Some b)
  have "add_bias (mat_add (matmul x W) (matmul x P)) b = mat_add (add_bias (matmul x W) b) (matmul x P)"
    by (rule add_bias_mat_add) (simp_all add: matmul_def assms)
  then show ?thesis by (simp add: Some F_linear_def matmul_add_distrib assms)
qed

text \<open>
  Claim C2. In exact arithmetic and with the dropout transform acting as the identity on
  the input, for all parameter values of conforming shapes: \<^verbatim>\<open>eval\<close> on an unmerged
  layer with \<^verbatim>\<open>merge_weights\<close> set merges the weight, and the merged layer's forward
  output equals the unmerged layer's forward output on the same input.
\<close>

theorem merge_transparent:
  assumes shapes: "layer_shapes self n m k" and x: "nc input = n"
    and mw: "merge_weights self" and unmerged: "\<not> merged self"
    and same: "apply_vera_dropout nn_Dropout self input = input"
  shows "merged (VeRALinear_eval self)
    \<and> VeRALinear_forward nn_Dropout (VeRALinear_eval self) input
        = VeRALinear_forward nn_Dropout self input"
proof -
  let ?W = "pvalue (weight self)" and ?A = "pvalue (lora_A self)" and ?B = "pvalue (lora_B self)"
  let ?d = "pvalue (vera_d self)" and ?b = "pvalue (vera_b self)"
  let ?P = "matmul (matmul (matmul ?A (diag ?d)) ?B) (diag ?b)"
  let ?bias = "map_option pvalue (bias self)"
  have dims: "nr ?W = n" "nc ?W = m" "nr ?A = n" "nc ?A = k" "nr ?B = k" "nc ?B = m"
    "length ?b = m" "length ?d = k"
    using shapes by (simp_all add: layer_shapes_def has_shape_def)
  have P: "nr ?P = n" "nc ?P = m"
    by (simp_all add: matmul_def diag_def dims)
  have ev: "VeRALinear_forward nn_Dropout (VeRALinear_eval self) input
      = F_linear input (mat_add ?W (mat_scale ?P (scaling self))) ?bias"
    using mw unmerged
    by (simp add: VeRALinear_forward_def VeRALinear_eval_def Let_def set_value_def)
  have "F_linear input (mat_add ?W (mat_scale ?P (scaling self))) ?bias
      = mat_add (F_linear input ?W ?bias) (matmul input (mat_scale ?P (scaling self)))"
    by (rule F_linear_add) (simp_all add: mat_scale_def dims x P)
  also have "matmul input (mat_scale ?P (scaling self)) = mat_scale (matmul input ?P) (scaling self)"
    by (rule matmul_scale) (simp add: x P)
  also have "matmul input ?P = matmul (matmul (matmul (matmul input ?A) (diag ?d)) ?B) (diag ?b)"
    by (rule lowrank_assoc) (simp_all add: dims x)
  finally have merged_form: "F_linear input (mat_add ?W (mat_scale ?P (scaling self))) ?bias
      = mat_add (F_linear input ?W ?bias)
          (mat_scale (matmul (matmul (matmul (matmul input ?A) (diag ?d)) ?B) (diag ?b))
             (scaling self))" .
  have un: "VeRALinear_forward nn_Dropout self input
      = mat_add (F_linear input ?W ?bias)
          (mat_scale (matmul (matmul (matmul (matmul input ?A) (diag ?d)) ?B) (diag ?b))
             (scaling self))"
    using unmerged by (simp add: VeRALinear_forward_def Let_def same)
  have "VeRALinear_forward nn_Dropout (VeRALinear_eval self) input
      = VeRALinear_forward nn_Dropout self input"
    by (simp only: ev merged_form un)
  moreover have "merged (VeRALinear_eval self)"
    using mw unmerged by (simp add: VeRALinear_eval_def Let_def)
  ultimately show ?thesis by simp
qed

theorem merge_transparent_witness:
  "layer_shapes demo_pissa_layer 1 1 1 \<and> nc (scalar_mat 1) = 1
   \<and> merge_weights demo_pissa_layer \<and> \<not> merged demo_pissa_layer
   \<and> apply_vera_dropout no_dropout demo_pissa_layer (scalar_mat 1) = scalar_mat 1
   \<and> merged (VeRALinear_eval demo_pissa_layer)
   \<and> VeRALinear_forward no_dropout (VeRALinear_eval demo_pissa_layer) (scalar_mat 1) = scalar_mat 4
   \<and> VeRALinear_forward no_dropout demo_pissa_layer (scalar_mat 1) = scalar_mat 4"
proof -
  have h1: "layer_shapes demo_pissa_layer 1 1 1"
    by (rule demo_shapes)
  have h2: "nc (scalar_mat 1) = 1"
    by (simp add: scalar_mat_def)
  have h3: "merge_weights demo_pissa_layer" and h4: "\<not> merged demo_pissa_layer"
    by (simp_all add: demo_pissa_layer_def)
  have h5: "apply_vera_dropout no_dropout demo_pissa_layer (scalar_mat 1) = scalar_mat 1"
    by (simp add: apply_vera_dropout_def demo_pissa_layer_def)
  show ?thesis
    using h1 h2 h3 h4 h5 merge_transparent [OF h1 h2 h3 h4 h5] by (simp add: demo_forward_pissa)
qed

section \<open>Shapes of a constructed layer\<close>

text \<open>
  The default constructor builds a layer of conforming shapes from a donor weight of
  shape \<open>[n, m]\<close>, and the mode transitions keep the shapes.
\<close>

lemma has_shape_mk_mat [simp]: "has_shape (mk_mat n m f) n' m' \<longleftrightarrow> n = n' \<and> m = m'"
  by (simp add: has_shape_def)

lemma init_default_shapes:
  assumes "VeRALinear_init svd ini fresh base n m r0 a0 p mw False = Inr self"
    and "has_shape (pvalue (weight base)) n m"
  shows "layer_shapes self n m (nat (r self))"
  using assms
  by (auto simp: VeRALinear_init_def Let_def set_value_def set_value_checked_def
      create_parameter_def layer_shapes_def full_def
      split: pynum.splits if_splits sum.splits)

lemma eval_shapes:
  assumes "layer_shapes self n m k"
  shows "layer_shapes (VeRALinear_eval self) n m k"
  using assms
  by (auto simp: VeRALinear_eval_def Let_def set_value_def layer_shapes_def mat_add_def
      has_shape_def)

lemma train_shapes:
  assumes "layer_shapes self n m k"
  shows "layer_shapes (VeRALinear_train self) n m k"
  using assms
  by (auto simp: VeRALinear_train_def Let_def set_value_def layer_shapes_def mat_sub_def
      has_shape_def)

section \<open>Construction\<close>

lemma init_default_fields:
  assumes "VeRALinear_init svd ini fresh base n m r0 a0 p mw False = Inr self"
  shows "pvalue (weight self) = pvalue (weight base)"
    and "pvalue (lora_B self) = full (nat (r self)) m 0"
  using assms
  by (auto simp: VeRALinear_init_def Let_def set_value_def set_value_checked_def
      create_parameter_def split: pynum.splits if_splits sum.splits)

lemma init_common_fields:
  assumes "VeRALinear_init svd ini fresh base n m r0 a0 p mw pissa = Inr self"
  shows "merged self = False" and "merge_weights self = mw" and "bias self = bias fresh"
    and "stop_gradient (weight self) = True"
  using assms
  by (auto simp: VeRALinear_init_def Let_def split: pynum.splits if_splits sum.splits prod.splits)

lemma init_rank_checked_first:
  assumes "same_shape (pvalue (weight fresh)) (pvalue (weight base))"
  shows "VeRALinear_init svd ini fresh base n m (PyFloat x) a0 p mw pissa = Inl ValueError"
    and "ri \<le> 0 \<Longrightarrow>
      VeRALinear_init svd ini fresh base n m (PyInt ri) a0 p mw pissa = Inl ValueError"
    and "0 < ri \<Longrightarrow> num_val a0 \<noteq> of_int ri \<Longrightarrow>
      VeRALinear_init svd ini fresh base n m (PyInt ri) a0 p mw True
        = Inl (AssertionError pissa_requires)"
  using assms by (simp_all add: VeRALinear_init_def set_value_checked_def)

lemma init_bad_rank_fails:
  "isl (VeRALinear_init svd ini fresh base n m (PyFloat x) a0 p mw pissa)"
  "ri \<le> 0 \<Longrightarrow> isl (VeRALinear_init svd ini fresh base n m (PyInt ri) a0 p mw pissa)"
  by (simp_all add: VeRALinear_init_def set_value_checked_def)

lemma init_pissa_alpha_fails:
  assumes "num_val a0 \<noteq> num_val r0"
  shows "isl (VeRALinear_init svd ini fresh base n m r0 a0 p mw True)"
  using assms by (cases r0) (simp_all add: VeRALinear_init_def set_value_checked_def)

lemma pissa_init_error:
  "VeRALinear_pissa_init svd rk st = Inl e \<Longrightarrow> e = AssertionError shape_not_match"
  by (auto simp: VeRALinear_pissa_init_def set_value_checked_def Let_def
      split: prod.splits sum.splits if_splits)

lemma py_true_div_error:
  "py_true_div a b = Inl e \<Longrightarrow> b \<noteq> 0 \<Longrightarrow> e = OverflowError"
  by (auto simp: py_true_div_def split: if_splits pynum.splits)

lemma messages_differ: "shape_not_match \<noteq> pissa_requires"
  by (simp add: shape_not_match_def pissa_requires_def)

lemma init_checks_pass:
  assumes "0 < ri" and "pissa \<longrightarrow> num_val a0 = of_int ri"
    and "VeRALinear_init svd ini fresh base n m (PyInt ri) a0 p mw pissa = Inl e"
  shows "e = AssertionError shape_not_match \<or> e = OverflowError"
proof (cases "set_value_checked (weight fresh) (pvalue (weight base))")
  case (Inl e')
  then show ?thesis
    using assms(3) by (auto simp: VeRALinear_init_def set_value_checked_def split: if_splits)
next
  case (Inr weight1)
  have nz: "ri \<noteq> 0" using assms(1) by simp
  show ?thesis
    using assms Inr
    by (auto simp: VeRALinear_init_def Let_def
        dest: pissa_init_error py_true_div_error [OF _ nz]
        split: sum.splits prod.splits if_splits)
qed

lemma init_default_succeeds:
  assumes "0 < ri" and "same_shape (pvalue (weight fresh)) (pvalue (weight base))"
    and "py_true_div a0 ri = Inr s"
  shows "\<not> isl (VeRALinear_init svd ini fresh base n m (PyInt ri) a0 p mw False)"
  using assms by (simp add: VeRALinear_init_def set_value_checked_def Let_def)

text \<open>
  Claim C5. Construction fails with an error when the rank is not a positive integer:
  for a rank \<open>r \<le> 0\<close> (so \<open>r = 0\<close> and \<open>r = -1\<close>) and for a rank that is not an
  \<^verbatim>\<open>int\<close> it returns an error, and the error is the rank check's \<open>ValueError\<close> whenever
  the donor's weight has the new layer's shape, so that storing it, which comes first,
  succeeds. Construction with \<^verbatim>\<open>pissa_init\<close> fails with an error whenever
  \<^verbatim>\<open>vera_alpha\<close> differs from \<open>r\<close>, and for a valid rank and a donor weight of the
  layer's shape the error is that of the \<^verbatim>\<open>assert\<close>. For a positive integer rank, with
  \<^verbatim>\<open>vera_alpha\<close> equal to \<open>r\<close> when PiSSA is asked for, neither check raises: the
  result is neither the rank check's \<open>ValueError\<close> nor the \<^verbatim>\<open>assert\<close>'s error.
\<close>

theorem init_checks:
  "(ri \<le> 0 \<longrightarrow> isl (VeRALinear_init svd ini fresh base n m (PyInt ri) a0 p mw pissa))
   \<and> isl (VeRALinear_init svd ini fresh base n m (PyFloat x) a0 p mw pissa)
   \<and> (ri \<le> 0 \<and> same_shape (pvalue (weight fresh)) (pvalue (weight base)) \<longrightarrow>
      VeRALinear_init svd ini fresh base n m (PyInt ri) a0 p mw pissa = Inl ValueError)
   \<and> (same_shape (pvalue (weight fresh)) (pvalue (weight base)) \<longrightarrow>
      VeRALinear_init svd ini fresh base n m (PyFloat x) a0 p mw pissa = Inl ValueError)
   \<and> (num_val a0 \<noteq> num_val r0 \<longrightarrow>
      isl (VeRALinear_init svd ini fresh base n m r0 a0 p mw True))
   \<and> (0 < ri \<and> num_val a0 \<noteq> of_int ri
        \<and> same_shape (pvalue (weight fresh)) (pvalue (weight base)) \<longrightarrow>
      VeRALinear_init svd ini fresh base n m (PyInt ri) a0 p mw True
        = Inl (AssertionError pissa_requires))
   \<and> (0 < ri \<and> (pissa \<longrightarrow> num_val a0 = of_int ri) \<longrightarrow>
      VeRALinear_init svd ini fresh base n m (PyInt ri) a0 p mw pissa \<noteq> Inl ValueError
      \<and> VeRALinear_init svd ini fresh base n m (PyInt ri) a0 p mw pissa
          \<noteq> Inl (AssertionError pissa_requires))"
proof -
  have pass: "VeRALinear_init svd ini fresh base n m (PyInt ri) a0 p mw pissa \<noteq> Inl ValueError
      \<and> VeRALinear_init svd ini fresh base n m (PyInt ri) a0 p mw pissa
          \<noteq> Inl (AssertionError pissa_requires)"
    if ok: "0 < ri \<and> (pissa \<longrightarrow> num_val a0 = of_int ri)"
  proof (intro conjI notI)
    assume "VeRALinear_init svd ini fresh base n m (PyInt ri) a0 p mw pissa = Inl ValueError"
    with ok init_checks_pass show False by blast
  next
    assume "VeRALinear_init svd ini fresh base n m (PyInt ri) a0 p mw pissa
      = Inl (AssertionError pissa_requires)"
    with ok init_checks_pass have "AssertionError pissa_requires = AssertionError shape_not_match
      \<or> AssertionError pissa_requires = OverflowError"
      by blast
    then show False using messages_differ by simp
  qed
  have shape: "VeRALinear_init svd ini fresh base n m (PyInt ri) a0 p mw pissa = Inl ValueError"
    if "ri \<le> 0 \<and> same_shape (pvalue (weight fresh)) (pvalue (weight base))"
    using that init_rank_checked_first(2) by blast
  have shape_float: "VeRALinear_init svd ini fresh base n m (PyFloat x) a0 p mw pissa = Inl ValueError"
    if "same_shape (pvalue (weight fresh)) (pvalue (weight base))"
    using that by (rule init_rank_checked_first(1))
  have alpha: "VeRALinear_init svd ini fresh base n m (PyInt ri) a0 p mw True
        = Inl (AssertionError pissa_requires)"
    if "0 < ri \<and> num_val a0 \<noteq> of_int ri
        \<and> same_shape (pvalue (weight fresh)) (pvalue (weight base))"
    using that init_rank_checked_first(3) by blast
  have bad_int: "ri \<le> 0 \<longrightarrow>
      isl (VeRALinear_init svd ini fresh base n m (PyInt ri) a0 p mw pissa)"
    by (rule impI) (rule init_bad_rank_fails(2))
  have bad_float: "isl (VeRALinear_init svd ini fresh base n m (PyFloat x) a0 p mw pissa)"
    by (rule init_bad_rank_fails(1))
  have differs: "num_val a0 \<noteq> num_val r0 \<longrightarrow>
      isl (VeRALinear_init svd ini fresh base n m r0 a0 p mw True)"
    by (rule impI) (rule init_pissa_alpha_fails)
  show ?thesis
    by (intro conjI impI bad_int [rule_format] bad_float shape shape_float
        differs [rule_format] alpha pass [THEN conjunct1] pass [THEN conjunct2])
      simp_all
qed

lemma demo_same_shape: "same_shape (pvalue (weight demo_fresh)) (pvalue (weight demo_donor))"
  by (simp add: same_shape_def demo_fresh_def demo_donor_def scalar_mat_def)

lemma demo_init_tall:
  "VeRALinear_init demo_svd demo_initializer demo_tall_fresh demo_donor 2 1 (PyInt 0) (PyInt 1) 0 True False
     = Inl (AssertionError shape_not_match)"
  by (simp add: VeRALinear_init_def set_value_checked_def same_shape_def demo_tall_fresh_def
      demo_fresh_def demo_donor_def full_def scalar_mat_def)

lemma demo_init_rank_too_large:
  "VeRALinear_init demo_svd demo_initializer demo_fresh demo_donor 1 1 (PyInt 3) (PyInt 3) 0 True True
     = Inl (AssertionError shape_not_match)"
  by (simp add: VeRALinear_init_def VeRALinear_pissa_init_def set_value_checked_def
      same_shape_def set_value_def create_parameter_def demo_fresh_def demo_donor_def
      demo_svd_def scalar_mat_def matmul_def diag_def slice_cols_def Let_def)

lemma demo_init_overflow:
  "VeRALinear_init demo_svd demo_initializer demo_fresh demo_donor 1 1 (PyInt 1) (PyInt (2 ^ 1024)) 0 True False
     = Inl OverflowError"
  by (simp add: VeRALinear_init_def set_value_checked_def same_shape_def demo_fresh_def
      demo_donor_def scalar_mat_def py_true_div_def float_overflow_bound_def Let_def)

theorem init_checks_witness:
  "same_shape (pvalue (weight demo_fresh)) (pvalue (weight demo_donor))
   \<and> VeRALinear_init demo_svd demo_initializer demo_fresh demo_donor 1 1 (PyInt 0) (PyInt 1) 0 True False
      = Inl ValueError
   \<and> VeRALinear_init demo_svd demo_initializer demo_fresh demo_donor 1 1 (PyInt (- 1)) (PyInt 1) 0 True False
      = Inl ValueError
   \<and> VeRALinear_init demo_svd demo_initializer demo_fresh demo_donor 1 1 (PyFloat (1 / 2)) (PyInt 1) 0 True False
      = Inl ValueError
   \<and> isl (VeRALinear_init demo_svd demo_initializer demo_tall_fresh demo_donor 2 1 (PyInt 0) (PyInt 1) 0 True False)
   \<and> VeRALinear_init demo_svd demo_initializer demo_fresh demo_donor 1 1 (PyInt 3) (PyInt 2) 0 True True
      = Inl (AssertionError pissa_requires)
   \<and> isl (VeRALinear_init demo_svd demo_initializer demo_fresh demo_donor 1 1 (PyInt 3) (PyInt 2) 0 True True)
   \<and> VeRALinear_init demo_svd demo_initializer demo_fresh demo_donor 1 1 (PyInt 1) (PyInt 1) 0 True True
      = Inr demo_pissa_layer
   \<and> VeRALinear_init demo_svd demo_initializer demo_fresh demo_donor 1 1 (PyInt 3) (PyInt 3) 0 True True
      = Inl (AssertionError shape_not_match)
   \<and> VeRALinear_init demo_svd demo_initializer demo_fresh demo_donor 1 1 (PyInt 3) (PyInt 3) 0 True True
      \<noteq> Inl (AssertionError pissa_requires)
   \<and> VeRALinear_init demo_svd demo_initializer demo_fresh demo_donor 1 1 (PyInt 1) (PyInt (2 ^ 1024)) 0 True False
      = Inl OverflowError"
proof -
  note s = demo_same_shape
  have c0: "VeRALinear_init demo_svd demo_initializer demo_fresh demo_donor 1 1 (PyInt 0) (PyInt 1) 0 True False
      = Inl ValueError"
    and c1: "VeRALinear_init demo_svd demo_initializer demo_fresh demo_donor 1 1 (PyInt (- 1)) (PyInt 1) 0 True False
      = Inl ValueError"
    and c2: "VeRALinear_init demo_svd demo_initializer demo_fresh demo_donor 1 1 (PyFloat (1 / 2)) (PyInt 1) 0 True False
      = Inl ValueError"
    and c3: "isl (VeRALinear_init demo_svd demo_initializer demo_tall_fresh demo_donor 2 1 (PyInt 0) (PyInt 1) 0 True False)"
    and c4: "VeRALinear_init demo_svd demo_initializer demo_fresh demo_donor 1 1 (PyInt 3) (PyInt 2) 0 True True
      = Inl (AssertionError pissa_requires)"
    and c5: "isl (VeRALinear_init demo_svd demo_initializer demo_fresh demo_donor 1 1 (PyInt 3) (PyInt 2) 0 True True)"
    and c6: "VeRALinear_init demo_svd demo_initializer demo_fresh demo_donor 1 1 (PyInt 3) (PyInt 3) 0 True True
      \<noteq> Inl (AssertionError pissa_requires)"
    using s
      init_checks [of 0 demo_svd demo_initializer demo_fresh demo_donor 1 1 "PyInt 1" 0 True False
        "1 / 2" "PyInt 1"]
      init_checks [of "- 1" demo_svd demo_initializer demo_fresh demo_donor 1 1 "PyInt 1" 0 True
        False]
      init_checks [of 0 demo_svd demo_initializer demo_tall_fresh demo_donor 2 1 "PyInt 1" 0 True
        False]
      init_checks [of 3 demo_svd demo_initializer demo_fresh demo_donor 1 1 "PyInt 2" 0 True True
        0 "PyInt 3"]
      init_checks [of 3 demo_svd demo_initializer demo_fresh demo_donor 1 1 "PyInt 3" 0 True True]
    by simp_all
  show ?thesis
    using s c0 c1 c2 c3 c4 c5 c6 demo_init_pissa demo_init_rank_too_large demo_init_overflow
    by simp
qed

text \<open>
  Claim C10. A successful construction disables gradient tracking on the weight and
  leaves the bias parameter as the linear base constructor created it, flag included:
  a bias that tracks gradients is counted by \<open>count_parameters\<close> with all its
  elements, and the frozen weight is not counted.
\<close>

theorem init_freezes_weight_only:
  assumes "VeRALinear_init svd ini fresh base n m r0 a0 p mw pissa = Inr self"
  shows "stop_gradient (weight self) \<and> bias self = bias fresh
    \<and> (\<forall>b. bias fresh = Some b \<and> \<not> stop_gradient b \<longrightarrow>
         count_parameters (VeRALinear_parameters self)
           = int (length (pvalue b)) + count_parameters (VeRALinear_parameters (self\<lparr>bias := None\<rparr>)))
    \<and> count_parameters (VeRALinear_parameters self)
        = count_parameters (tl (VeRALinear_parameters self))"
  using init_common_fields [OF assms]
  by (auto simp: VeRALinear_parameters_def count_parameters_def as_tensor1_def as_tensor2_def)

theorem init_freezes_weight_only_witness:
  "VeRALinear_init demo_svd demo_initializer demo_fresh demo_donor 1 1 (PyInt 1) (PyInt 1) 0 True False
     = Inr (demo_layer True)
   \<and> bias demo_fresh = Some \<lparr>pvalue = [0], stop_gradient = False\<rparr>
   \<and> \<not> stop_gradient \<lparr>pvalue = [0::real], stop_gradient = False\<rparr>
   \<and> stop_gradient (weight (demo_layer True))
   \<and> bias (demo_layer True) = Some \<lparr>pvalue = [0], stop_gradient = False\<rparr>
   \<and> count_parameters (VeRALinear_parameters (demo_layer True)) = 5
   \<and> count_parameters (VeRALinear_parameters ((demo_layer True)\<lparr>bias := None\<rparr>)) = 4"
proof -
  have b: "bias demo_fresh = Some \<lparr>pvalue = [0], stop_gradient = False\<rparr>"
    by (simp add: demo_fresh_def)
  have c: "count_parameters (VeRALinear_parameters ((demo_layer True)\<lparr>bias := None\<rparr>)) = 4"
    by (simp add: VeRALinear_parameters_def count_parameters_def as_tensor1_def as_tensor2_def
        demo_layer_def scalar_mat_def)
  show ?thesis
    using b c demo_init_default [of True]
      init_freezes_weight_only [OF demo_init_default [of True]]
    by simp
qed

section \<open>PiSSA initialization\<close>

lemma init_pissa_fields:
  assumes "VeRALinear_init svd ini fresh base n m r0 a0 p mw True = Inr self"
    and "svd (pvalue (weight base)) = (U, S, Vh)"
  shows "\<exists>ri. r0 = PyInt ri \<and> 0 < ri \<and> r self = ri \<and> scaling self = 1
    \<and> pvalue (vera_b self) = replicate m 1
    \<and> pvalue (vera_d self) = replicate (nat ri) 1
    \<and> pvalue (lora_A self) = matmul (slice_cols U (nat ri)) (diag (map sqrt (take (nat ri) S)))
    \<and> pvalue (lora_B self) = matmul (diag (map sqrt (take (nat ri) S))) (slice_rows Vh (nat ri))
    \<and> pvalue (weight self) = mat_sub (pvalue (weight base))
          (matmul (pvalue (lora_A self)) (pvalue (lora_B self)))"
  using assms
  by (auto simp: VeRALinear_init_def VeRALinear_pissa_init_def Let_def set_value_def
      set_value_checked_def create_parameter_def
      dest: py_true_div_same split: pynum.splits if_splits sum.splits)

text \<open>
  Claim C3. After construction with \<^verbatim>\<open>pissa_init\<close>, \<^verbatim>\<open>vera_b\<close> and \<^verbatim>\<open>vera_d\<close> are
  all ones, and the stored weight plus
  \<open>scaling \<cdot> lora_A \<cdot> diag(vera_d) \<cdot> lora_B \<cdot> diag(vera_b)\<close> is the donor's weight, exactly.
  The donor weight has shape \<open>[n, m]\<close>, the decomposition returns factors of matching
  outer shapes, and the rank does not exceed the number of singular values.
\<close>

theorem pissa_reconstructs:
  assumes init: "VeRALinear_init svd ini fresh base n m r0 a0 p mw True = Inr self"
    and svd: "svd (pvalue (weight base)) = (U, S, Vh)"
    and W: "has_shape (pvalue (weight base)) n m"
    and U: "nr U = n" and Vh: "nc Vh = m" and rank: "nat (r self) \<le> length S"
  shows "pvalue (vera_b self) = replicate m 1
    \<and> pvalue (vera_d self) = replicate (nat (r self)) 1
    \<and> mat_add (pvalue (weight self)) (delta_weight self) = pvalue (weight base)"
proof -
  let ?A = "pvalue (lora_A self)" and ?B = "pvalue (lora_B self)"
  from init_pissa_fields [OF init svd] obtain ri where
    ri: "r self = ri" and sc: "scaling self = 1"
    and b: "pvalue (vera_b self) = replicate m 1"
    and d: "pvalue (vera_d self) = replicate (nat ri) 1"
    and A: "?A = matmul (slice_cols U (nat ri)) (diag (map sqrt (take (nat ri) S)))"
    and B: "?B = matmul (diag (map sqrt (take (nat ri) S))) (slice_rows Vh (nat ri))"
    and Wn: "pvalue (weight self) = mat_sub (pvalue (weight base)) (matmul ?A ?B)"
    by blast
  have ncA: "nc ?A = nat ri" and nrA: "nr ?A = n" and wfA: "wf_mat ?A"
    using rank ri by (simp_all add: A matmul_def diag_def slice_cols_def U)
  have ncB: "nc ?B = m"
    by (simp add: B matmul_def slice_rows_def Vh)
  have 1: "matmul ?A (diag (replicate (nat ri) 1)) = ?A"
    using matmul_diag_ones [OF wfA] by (simp add: ncA)
  have wfAB: "wf_mat (matmul ?A ?B)" and ncAB: "nc (matmul ?A ?B) = m"
    and nrAB: "nr (matmul ?A ?B) = n"
    by (simp_all add: matmul_def ncB nrA)
  have 2: "matmul (matmul ?A ?B) (diag (replicate m 1)) = matmul ?A ?B"
    using matmul_diag_ones [OF wfAB] by (simp add: ncAB)
  have "delta_weight self = matmul ?A ?B"
    by (simp add: delta_weight_def left_scale_eq sc b d 1 2 mat_scale_one wfAB)
  moreover have "mat_add (mat_sub (pvalue (weight base)) (matmul ?A ?B)) (matmul ?A ?B)
      = pvalue (weight base)"
    by (rule mat_sub_add_cancel) (use W in \<open>simp_all add: has_shape_def nrAB ncAB\<close>)
  ultimately show ?thesis
    using b d ri Wn by simp
qed

theorem pissa_reconstructs_witness:
  "VeRALinear_init demo_svd demo_initializer demo_fresh demo_donor 1 1 (PyInt 1) (PyInt 1) 0 True True
     = Inr demo_pissa_layer
   \<and> demo_svd (pvalue (weight demo_donor)) = (scalar_mat 1, [4], scalar_mat 1)
   \<and> has_shape (pvalue (weight demo_donor)) 1 1
   \<and> nr (scalar_mat 1) = 1 \<and> nc (scalar_mat 1) = 1 \<and> nat (r demo_pissa_layer) \<le> length [4::real]
   \<and> pvalue (weight demo_pissa_layer) = scalar_mat 0
   \<and> mat_add (pvalue (weight demo_pissa_layer)) (delta_weight demo_pissa_layer) = scalar_mat 4"
proof -
  have h2: "demo_svd (pvalue (weight demo_donor)) = (scalar_mat 1, [4], scalar_mat 1)"
    by (simp add: demo_svd_def demo_donor_def scalar_mat_def el_def)
  have h3: "has_shape (pvalue (weight demo_donor)) 1 1"
    by (simp add: has_shape_def wf_mat_def demo_donor_def scalar_mat_def)
  have h4: "nr (scalar_mat 1) = 1" and h5: "nc (scalar_mat 1) = 1"
    by (simp_all add: scalar_mat_def)
  have h6: "nat (r demo_pissa_layer) \<le> length [4::real]"
    by (simp add: demo_pissa_layer_def)
  have w: "pvalue (weight demo_pissa_layer) = scalar_mat 0"
    by (simp add: demo_pissa_layer_def)
  have d: "pvalue (weight demo_donor) = scalar_mat 4"
    by (simp add: demo_donor_def)
  show ?thesis
    using demo_init_pissa h2 h3 h4 h5 h6 w
      pissa_reconstructs [OF demo_init_pissa h2 h3 h4 h5 h6]
    by (simp add: d)
qed

section \<open>Default initialization\<close>

lemma low_rank_term_zero_B:
  assumes "pvalue (lora_B self) = full k m 0"
  shows "low_rank_term self x = full (nr x) (length (pvalue (vera_b self))) 0"
  by (simp add: low_rank_term_def assms left_scale_eq matmul_zero_right matmul_zero_left
      mat_scale_zero) (simp add: matmul_def diag_def)

text \<open>
  Claim C6, as the code has it. With the default initialization and before any update,
  the forward output on any input is \<open>input \<cdot> donor_weight + b\<close>, where \<open>b\<close> is the
  layer's own bias as the linear base constructor created it: the low-rank term
  vanishes because \<^verbatim>\<open>lora_B\<close> is all zeros, the weight is the donor's, and the
  constructor does not copy the donor's bias. The output is the donor layer's output
  whenever the layer's own bias has the donor's bias values.
\<close>

theorem zero_init_forward:
  assumes "VeRALinear_init svd ini fresh base n m r0 a0 p mw False = Inr self"
  shows "VeRALinear_forward nn_Dropout self input
           = F_linear input (pvalue (weight base)) (map_option pvalue (bias fresh))
    \<and> (map_option pvalue (bias fresh) = map_option pvalue (bias base) \<longrightarrow>
         VeRALinear_forward nn_Dropout self input = nn_Linear_forward base input)"
proof -
  have "VeRALinear_forward nn_Dropout self input = nn_Linear_forward self input"
    using init_common_fields(1) [OF assms] init_default_fields(2) [OF assms]
    by (simp add: forward_unmerged low_rank_term_zero_B mat_add_zero)
  moreover have "nn_Linear_forward self input
      = F_linear input (pvalue (weight base)) (map_option pvalue (bias fresh))"
    by (simp add: nn_Linear_forward_def init_default_fields(1) [OF assms]
        init_common_fields(3) [OF assms])
  ultimately show ?thesis by (simp add: nn_Linear_forward_def)
qed

lemma demo_init_same_bias:
  "VeRALinear_init demo_svd demo_initializer demo_fresh demo_fresh 1 1 (PyInt 1) (PyInt 1) 0 True False
     = Inr ((demo_layer True)\<lparr>weight := \<lparr>pvalue = scalar_mat 7, stop_gradient = True\<rparr>\<rparr>)"
  by (simp add: VeRALinear_init_def demo_layer_def demo_fresh_def
      demo_initializer_def py_true_div_one eval_defs)

theorem zero_init_forward_witness:
  "VeRALinear_init demo_svd demo_initializer demo_fresh demo_donor 1 1 (PyInt 1) (PyInt 1) 0 True False
     = Inr (demo_layer True)
   \<and> VeRALinear_forward no_dropout (demo_layer True) (scalar_mat 1)
       = F_linear (scalar_mat 1) (pvalue (weight demo_donor)) (map_option pvalue (bias demo_fresh))
   \<and> VeRALinear_init demo_svd demo_initializer demo_fresh demo_fresh 1 1 (PyInt 1) (PyInt 1) 0 True False
     = Inr ((demo_layer True)\<lparr>weight := \<lparr>pvalue = scalar_mat 7, stop_gradient = True\<rparr>\<rparr>)
   \<and> map_option pvalue (bias demo_fresh) = map_option pvalue (bias demo_fresh)
   \<and> VeRALinear_forward no_dropout
        ((demo_layer True)\<lparr>weight := \<lparr>pvalue = scalar_mat 7, stop_gradient = True\<rparr>\<rparr>) (scalar_mat 1)
       = nn_Linear_forward demo_fresh (scalar_mat 1)"
  using demo_init_default [of True] demo_init_same_bias
    zero_init_forward [OF demo_init_default [of True], of no_dropout "scalar_mat 1"]
    zero_init_forward [OF demo_init_same_bias, of no_dropout "scalar_mat 1"]
  by (simp add: nn_Linear_forward_def)

text \<open>
  Claim C6 as stated fails: for a donor with weight 4 and bias 5, the constructed layer
  (own bias 0) maps the input 1 to 4, the donor maps it to 9.
\<close>

theorem zero_init_donor_bias_counterexample:
  "VeRALinear_init demo_svd demo_initializer demo_fresh demo_donor 1 1 (PyInt 1) (PyInt 1) 0 True False
     = Inr (demo_layer True)
   \<and> VeRALinear_forward no_dropout (demo_layer True) (scalar_mat 1) = scalar_mat 4
   \<and> nn_Linear_forward demo_donor (scalar_mat 1) = scalar_mat 9
   \<and> VeRALinear_forward no_dropout (demo_layer True) (scalar_mat 1)
       \<noteq> nn_Linear_forward demo_donor (scalar_mat 1)"
proof -
  have "scalar_mat 4 \<noteq> scalar_mat 9"
    by (simp add: scalar_mat_def)
  then show ?thesis
    using demo_init_default [of True] demo_forward_default [of True] demo_donor_forward
    by simp
qed


section \<open>Mode transitions\<close>

text \<open>
  Claim C4. Entering the same mode twice in a row leaves the weight as the first
  transition left it, for \<^verbatim>\<open>train\<close> and for \<^verbatim>\<open>eval\<close>, in every layer state.
\<close>

theorem repeated_mode_noop:
  "weight (VeRALinear_train (VeRALinear_train self)) = weight (VeRALinear_train self)
   \<and> weight (VeRALinear_eval (VeRALinear_eval self)) = weight (VeRALinear_eval self)"
  by (simp add: VeRALinear_train_def VeRALinear_eval_def Let_def)

lemma step_frame:
  "\<not> merge_weights self \<Longrightarrow> weight (step t self) = weight self
     \<and> merged (step t self) = merged self
     \<and> merge_weights (step t self) = merge_weights self"
  by (cases t) (simp_all add: VeRALinear_train_def VeRALinear_eval_def Let_def)

lemma run_frame:
  "\<not> merge_weights self \<Longrightarrow> weight (run_transitions ts self) = weight self
     \<and> merged (run_transitions ts self) = merged self
     \<and> merge_weights (run_transitions ts self) = merge_weights self"
proof (induction ts arbitrary: self)
  case Nil
  then show ?case by simp
next
  case (Cons t ts)
  have "\<not> merge_weights (step t self)"
    using Cons.prems step_frame by simp
  from Cons.IH [OF this] show ?case
    using step_frame [OF Cons.prems, of t] by simp
qed

text \<open>
  Claim C7. For a layer constructed with \<^verbatim>\<open>merge_weights\<close> false, after every
  sequence of \<^verbatim>\<open>train\<close>/\<^verbatim>\<open>eval\<close> transitions the weight is the constructed one and
  \<^verbatim>\<open>merged\<close> is false, one more transition changes neither, and the forward output is
  the affine map plus the low-rank term.
\<close>

theorem no_merge_frame:
  assumes "VeRALinear_init svd ini fresh base n m r0 a0 p False pissa = Inr self"
  shows "weight (run_transitions ts self) = weight self
    \<and> merged (run_transitions ts self) = False
    \<and> weight (step t (run_transitions ts self)) = weight (run_transitions ts self)
    \<and> merged (step t (run_transitions ts self)) = False
    \<and> VeRALinear_forward nn_Dropout (run_transitions ts self) input
        = mat_add (nn_Linear_forward (run_transitions ts self) input)
            (low_rank_term (run_transitions ts self)
               (apply_vera_dropout nn_Dropout (run_transitions ts self) input))"
proof -
  have mw: "\<not> merge_weights self" and m: "\<not> merged self"
    using init_common_fields [OF assms] by simp_all
  have run: "weight (run_transitions ts self) = weight self"
    "merged (run_transitions ts self) = False" "\<not> merge_weights (run_transitions ts self)"
    using run_frame [OF mw, of ts] m mw by simp_all
  have st: "weight (step t (run_transitions ts self)) = weight (run_transitions ts self)"
    "merged (step t (run_transitions ts self)) = False"
    using step_frame [OF run(3), of t] run(2) by simp_all
  show ?thesis
    using run(1,2) st by (simp add: forward_unmerged)
qed

theorem no_merge_frame_witness:
  "VeRALinear_init demo_svd demo_initializer demo_fresh demo_donor 1 1 (PyInt 1) (PyInt 1) 0 False False
     = Inr (demo_layer False)
   \<and> weight (run_transitions [Eval, Train, Eval] (demo_layer False)) = weight (demo_layer False)
   \<and> merged (run_transitions [Eval, Train, Eval] (demo_layer False)) = False
   \<and> weight (step Eval (run_transitions [Eval, Train, Eval] (demo_layer False)))
       = weight (demo_layer False)
   \<and> merged (step Eval (run_transitions [Eval, Train, Eval] (demo_layer False))) = False"
  using demo_init_default [of False]
    no_merge_frame [OF demo_init_default [of False], of "[Eval, Train, Eval]" Eval no_dropout "scalar_mat 1"]
  by simp

section \<open>Parameter accounting\<close>

lemma interventions_loop_sum:
  "list_all (\<lambda>kv. snd kv \<noteq> []) ivs \<Longrightarrow>
     interventions_loop ivs acc = Inr (acc + sum_list (map first_module_count ivs))"
proof (induction ivs arbitrary: acc)
  case Nil
  then show ?case by simp
next
  case (Cons kv ivs)
  obtain k v where kv: "kv = (k, v)" by (cases kv)
  with Cons.prems obtain md ms where v: "v = md # ms" by (cases v) auto
  show ?case
    using Cons.IH [of "acc + count_parameters md"] Cons.prems
    by (simp add: kv v first_module_count_def)
qed

lemma print_ok:
  assumes "registry_ok self" and "count_all (model self) \<noteq> 0"
  shows "print_trainable_parameters self =
     Inr \<lparr>trainable_intervention_parameters = sum_list (map first_module_count (interventions self)),
          trainable_model_parameters = count_parameters (model self),
          all_model_parameters = count_all (model self),
          total_trainable_parameters =
            sum_list (map first_module_count (interventions self)) + count_parameters (model self),
          trainable_percent =
            100 * real_of_int (sum_list (map first_module_count (interventions self))
                    + count_parameters (model self))
              / real_of_int (count_all (model self))\<rparr>"
  using assms
  by (simp add: print_trainable_parameters_def registry_ok_def interventions_loop_sum
      count_parameters_def count_all_def Let_def)

lemma print_zero:
  assumes "registry_ok self" and "count_all (model self) = 0"
  shows "print_trainable_parameters self = Inl ZeroDivisionError"
  using assms
  by (simp add: print_trainable_parameters_def registry_ok_def interventions_loop_sum
      count_all_def Let_def)

text \<open>
  Claim C8. On a registry whose entries each have a first module and a base model with
  at least one parameter element, the report holds: the sum over the registry entries of
  the trainable element count of the entry's first module, the trainable element count
  of the base model, the element count of the base model, the sum of the first two, and
  100 times that sum divided by the third. With 100 base elements, 10 of them trainable,
  and one intervention of 5 trainable elements, these are 5, 10, 100, 15 and 15.
\<close>

theorem report_counts:
  "(registry_ok self \<and> count_all (model self) \<noteq> 0 \<longrightarrow>
      print_trainable_parameters self =
        Inr \<lparr>trainable_intervention_parameters =
               sum_list (map first_module_count (interventions self)),
             trainable_model_parameters = count_parameters (model self),
             all_model_parameters = count_all (model self),
             total_trainable_parameters =
               sum_list (map first_module_count (interventions self))
                 + count_parameters (model self),
             trainable_percent =
               100 * real_of_int (sum_list (map first_module_count (interventions self))
                       + count_parameters (model self))
                 / real_of_int (count_all (model self))\<rparr>)
   \<and> (interventions self = [(k, first_module # others)] \<and> count_parameters first_module = 5
        \<and> count_parameters (model self) = 10 \<and> count_all (model self) = 100 \<longrightarrow>
      print_trainable_parameters self =
        Inr \<lparr>trainable_intervention_parameters = 5, trainable_model_parameters = 10,
             all_model_parameters = 100, total_trainable_parameters = 15,
             trainable_percent = 15\<rparr>)"
proof (intro conjI impI)
  assume "registry_ok self \<and> count_all (model self) \<noteq> 0"
  then show "print_trainable_parameters self =
        Inr \<lparr>trainable_intervention_parameters =
               sum_list (map first_module_count (interventions self)),
             trainable_model_parameters = count_parameters (model self),
             all_model_parameters = count_all (model self),
             total_trainable_parameters =
               sum_list (map first_module_count (interventions self))
                 + count_parameters (model self),
             trainable_percent =
               100 * real_of_int (sum_list (map first_module_count (interventions self))
                       + count_parameters (model self))
                 / real_of_int (count_all (model self))\<rparr>"
    by (simp add: print_ok)
next
  assume a: "interventions self = [(k, first_module # others)] \<and> count_parameters first_module = 5
        \<and> count_parameters (model self) = 10 \<and> count_all (model self) = 100"
  then have "registry_ok self" and "count_all (model self) \<noteq> 0"
    by (simp_all add: registry_ok_def)
  from print_ok [OF this] a
  show "print_trainable_parameters self =
        Inr \<lparr>trainable_intervention_parameters = 5, trainable_model_parameters = 10,
             all_model_parameters = 100, total_trainable_parameters = 15,
             trainable_percent = 15\<rparr>"
    by (simp add: first_module_count_def)
qed

lemma demo_reft_facts:
  "registry_ok demo_reft" "count_all (model demo_reft) = 100"
  "count_parameters (model demo_reft) = 10"
  "sum_list (map first_module_count (interventions demo_reft)) = 5"
  by (simp_all add: registry_ok_def demo_reft_def count_all_def count_parameters_def
      first_module_count_def full_def)

theorem report_counts_witness:
  "registry_ok demo_reft \<and> count_all (model demo_reft) \<noteq> 0
   \<and> interventions demo_reft =
       [(''layer.0'', [\<lparr>pvalue = Tensor1 [1, 2, 3, 4, 5], stop_gradient = False\<rparr>,
                       \<lparr>pvalue = Tensor1 [6, 7], stop_gradient = True\<rparr>] # [[]])]
   \<and> count_parameters [\<lparr>pvalue = Tensor1 [1, 2, 3, 4, 5], stop_gradient = False\<rparr>,
                        \<lparr>pvalue = Tensor1 [6, 7], stop_gradient = True\<rparr>] = 5
   \<and> count_parameters (model demo_reft) = 10 \<and> count_all (model demo_reft) = 100
   \<and> print_trainable_parameters demo_reft =
        Inr \<lparr>trainable_intervention_parameters = 5, trainable_model_parameters = 10,
             all_model_parameters = 100, total_trainable_parameters = 15,
             trainable_percent = 15\<rparr>"
proof -
  have i: "interventions demo_reft =
       [(''layer.0'', [\<lparr>pvalue = Tensor1 [1, 2, 3, 4, 5], stop_gradient = False\<rparr>,
                       \<lparr>pvalue = Tensor1 [6, 7], stop_gradient = True\<rparr>] # [[]])]"
    by (simp add: demo_reft_def)
  have c: "count_parameters [\<lparr>pvalue = Tensor1 [1, 2, 3, 4, 5], stop_gradient = False\<rparr>,
                        \<lparr>pvalue = Tensor1 [6, 7], stop_gradient = True\<rparr>] = 5"
    by (simp add: count_parameters_def)
  show ?thesis
    using i c demo_reft_facts
      report_counts [of demo_reft "''layer.0''"
        "[\<lparr>pvalue = Tensor1 [1, 2, 3, 4, 5], stop_gradient = False\<rparr>,
          \<lparr>pvalue = Tensor1 [6, 7], stop_gradient = True\<rparr>]" "[[]]"]
    by simp
qed

text \<open>
  Claim C9. On a registry whose entries each have a first module, the report fails
  with \<open>ZeroDivisionError\<close> if and only if the base model's element count is 0, that is,
  if no parameter of the base model has an element; with at least one element it
  returns without error.
\<close>

theorem report_zero_division:
  assumes "registry_ok self"
  shows "(print_trainable_parameters self = Inl ZeroDivisionError \<longleftrightarrow> count_all (model self) = 0)
    \<and> (isl (print_trainable_parameters self) \<longleftrightarrow> count_all (model self) = 0)
    \<and> (count_all (model self) = 0 \<longleftrightarrow> list_all (\<lambda>p. numel (pvalue p) = 0) (model self))"
proof -
  have "count_all (model self) = 0 \<Longrightarrow> print_trainable_parameters self = Inl ZeroDivisionError"
    using assms by (rule print_zero)
  moreover have "count_all (model self) \<noteq> 0 \<Longrightarrow> \<not> isl (print_trainable_parameters self)"
    using print_ok [OF assms] by simp
  moreover have "count_all (model self) = 0 \<longleftrightarrow> list_all (\<lambda>p. numel (pvalue p) = 0) (model self)"
    by (simp add: count_all_def list_all_iff)
  ultimately show ?thesis by auto
qed

theorem report_zero_division_witness:
  "registry_ok demo_reft \<and> count_all (model demo_reft) \<noteq> 0
   \<and> \<not> isl (print_trainable_parameters demo_reft)
   \<and> registry_ok (demo_reft\<lparr>model := []\<rparr>) \<and> count_all (model (demo_reft\<lparr>model := []\<rparr>)) = 0
   \<and> print_trainable_parameters (demo_reft\<lparr>model := []\<rparr>) = Inl ZeroDivisionError"
proof -
  have 1: "registry_ok demo_reft" and 2: "registry_ok (demo_reft\<lparr>model := []\<rparr>)"
    by (simp_all add: registry_ok_def demo_reft_def)
  have 3: "count_all (model (demo_reft\<lparr>model := []\<rparr>)) = 0"
    by (simp add: count_all_def)
  show ?thesis
    using 1 2 3 demo_reft_facts(2) report_zero_division [OF 1] report_zero_division [OF 2]
    by simp
qed

end
